theory Spec2Isabelle
  imports Main "HOL-Library.Word"
begin

section \<open>The chat client of RD Assistant (src/frontend/app.js)\<close>

text \<open>
  The page script \<^verbatim>\<open>app.js\<close> (the first document of the file, lines 1 to 225, the one
  \<^verbatim>\<open>index.html\<close> loads) is embedded as functions on an explicit page state: the script's
  global variables, the parts of the document it reads and writes, the two items of
  \<^verbatim>\<open>localStorage\<close>, and the asynchronous operations that are still pending. An event of the
  browser (a click, a completed request, a file chosen) is one step on that state.

  Left out, as nothing the script decides depends on them: scroll positions, the
  height of the input, the focus, the settings overlay, and the time printed in a
  message. The state also keeps what the page has done to the outside, which the
  script itself does not store: the requests issued, the warnings shown, the writes to
  \<^verbatim>\<open>localStorage\<close>, the runs of the diagram renderer and the exceptions nothing caught.
\<close>

subsection \<open>JavaScript values\<close>

text \<open>
  A string is the UTF-8 encoding of the JavaScript string, a list of bytes: a character
  of ASCII is one byte, any other character two to four.

  A server reply is whatever \<^verbatim>\<open>res.json()\<close> parses. Numbers are restricted to the integers
  from \<open>- 2 ^ 53\<close> to \<open>2 ^ 53 - 1\<close>, which a double holds exactly and which are printed
  in plain digits: a number is a word of 54 bits, read as signed. An object is the list
  of its own properties in enumeration order, with distinct keys.
  A \<open>jsval\<close> is a JSON value or \<^verbatim>\<open>undefined\<close> (\<open>None\<close>), which is what reading a missing
  property gives.
\<close>

datatype json =
    JNull
  | JBool bool
  | JNum "54 word"
  | JStr string
  | JArr "json list"
  | JObj "(string \<times> json) list"

type_synonym jsval = "json option"

datatype error = TypeError | Rejected string

text \<open>The truth value a condition gives to a value (\<^verbatim>\<open>ToBoolean\<close>).\<close>

fun truthy :: "jsval \<Rightarrow> bool" where
  "truthy None = False"
| "truthy (Some JNull) = False"
| "truthy (Some (JBool b)) = b"
| "truthy (Some (JNum n)) = (n \<noteq> 0)"
| "truthy (Some (JStr s)) = (s \<noteq> [])"
| "truthy (Some (JArr xs)) = True"
| "truthy (Some (JObj kvs)) = True"

text \<open>
  Reading the property \<open>k\<close> of \<open>v\<close>, for the names the script reads (\<^verbatim>\<open>result\<close>,
  \<^verbatim>\<open>response\<close>, \<^verbatim>\<open>message\<close>, \<^verbatim>\<open>session_id\<close>, \<^verbatim>\<open>diagram\<close>), none of which a
  prototype defines: \<^verbatim>\<open>null\<close> and \<^verbatim>\<open>undefined\<close> throw a TypeError, an object gives its own
  property, every other value gives \<^verbatim>\<open>undefined\<close>.
\<close>

fun get_prop :: "jsval \<Rightarrow> string \<Rightarrow> error + jsval" where
  "get_prop None k = Inl TypeError"
| "get_prop (Some JNull) k = Inl TypeError"
| "get_prop (Some (JObj kvs)) k = Inr (map_of kvs k)"
| "get_prop (Some v) k = Inr None"

subsection \<open>JSON.stringify\<close>

fun digits :: "nat \<Rightarrow> string" where
  "digits n =
     (if n < 10 then [''0123456789'' ! n]
      else digits (n div 10) @ [''0123456789'' ! (n mod 10)])"

definition show_int :: "int \<Rightarrow> string" where
  "show_int i = (if i < 0 then ''-'' @ digits (nat (- i)) else digits (nat i))"

definition hex_digit :: "nat \<Rightarrow> char" where
  "hex_digit n = ''0123456789abcdef'' ! (n mod 16)"

text \<open>\<^verbatim>\<open>QuoteJSONString\<close> on one character.\<close>

definition quote_char :: "char \<Rightarrow> string" where
  \<open>quote_char c =
     (if c = CHR 0x22 then [CHR 0x5C, CHR 0x22]
      else if c = CHR 0x5C then [CHR 0x5C, CHR 0x5C]
      else if c = CHR 0x08 then [CHR 0x5C, CHR ''b'']
      else if c = CHR 0x09 then [CHR 0x5C, CHR ''t'']
      else if c = CHR 0x0A then [CHR 0x5C, CHR ''n'']
      else if c = CHR 0x0C then [CHR 0x5C, CHR ''f'']
      else if c = CHR 0x0D then [CHR 0x5C, CHR ''r'']
      else if of_char c < (32 :: nat) then
        [CHR 0x5C, CHR ''u'', CHR ''0'', CHR ''0'',
         hex_digit (of_char c div 16), hex_digit (of_char c)]
      else [c])\<close>

definition quote :: "string \<Rightarrow> string" where
  "quote s = [CHR 0x22] @ concat (map quote_char s) @ [CHR 0x22]"

fun join :: "string list \<Rightarrow> string" where
  "join [] = []"
| "join [x] = x"
| "join (x # y # ys) = x @ '','' @ join (y # ys)"

fun JSON_stringify :: "json \<Rightarrow> string" where
  "JSON_stringify JNull = ''null''"
| "JSON_stringify (JBool b) = (if b then ''true'' else ''false'')"
| "JSON_stringify (JNum n) = show_int (sint n)"
| "JSON_stringify (JStr s) = quote s"
| "JSON_stringify (JArr xs) = ''['' @ join (map JSON_stringify xs) @ '']''"
| "JSON_stringify (JObj kvs) =
     ''{'' @ join (map (\<lambda>(k, v). quote k @ '':'' @ JSON_stringify v) kvs) @ ''}''"

subsection \<open>renderMarkdown\<close>

text \<open>
  \<^verbatim>\<open>text.replace(/\*\*(.*?)\*\*/g, '<strong>$1</strong>')
      .replace(/\*(.*?)\*/g, '<em>$1</em>')
      .replace(/`([^`]+)`/g, '<code style="...">$1</code>')
      .replace(/\n/g, '<br>')\<close>

  Each \<^verbatim>\<open>replace\<close> with a global pattern scans the string once from the left: where the
  pattern matches, the match is replaced and the scan goes on behind it; elsewhere the
  character is kept. The dot of a pattern matches every character but a line terminator:
  line feed, carriage return, U+2028 and U+2029, the last two of three bytes each.
\<close>

definition starts_with :: "string \<Rightarrow> string \<Rightarrow> bool" where
  "starts_with w s \<longleftrightarrow> w \<noteq> [] \<and> take (length w) s = w"

definition line_terminators :: "string list" where
  "line_terminators =
     [[CHR 0x0A], [CHR 0x0D], [CHR 0xE2, CHR 0x80, CHR 0xA8], [CHR 0xE2, CHR 0x80, CHR 0xA9]]"

definition at_line_terminator :: "string \<Rightarrow> bool" where
  "at_line_terminator s \<longleftrightarrow> list_ex (\<lambda>w. starts_with w s) line_terminators"

text \<open>
  \<^verbatim>\<open>(.*?)d\<close> for a delimiter \<open>d\<close>: the shortest run of dot characters that the delimiter
  follows; the result is the captured run and what is left behind the delimiter.
\<close>

fun lazy_dot_until :: "string \<Rightarrow> string \<Rightarrow> (string \<times> string) option" where
  "lazy_dot_until d [] = (if d = [] then Some ([], []) else None)"
| "lazy_dot_until d (c # cs) =
     (if take (length d) (c # cs) = d then Some ([], drop (length d) (c # cs))
      else if at_line_terminator (c # cs) then None
      else map_option (\<lambda>(g, r). (c # g, r)) (lazy_dot_until d cs))"

lemma lazy_dot_until_length:
  "lazy_dot_until d s = Some (g, r) \<Longrightarrow> length r \<le> length s"
  by (induction s arbitrary: g r) (auto split: if_splits)

lemma lazy_dot_until_shorter:
  assumes "d \<noteq> []" and "take (length d) s = d"
    and "lazy_dot_until d (drop (length d) s) = Some (g, rest)"
  shows "length rest < length s"
proof -
  have "length rest \<le> length s - length d"
    using lazy_dot_until_length [OF assms(3)] by simp
  moreover have "length d \<le> length s"
    using arg_cong [OF assms(2), of length] by simp
  moreover have "0 < length d" using assms(1) by simp
  ultimately show ?thesis by linarith
qed

text \<open>\<^verbatim>\<open>s.replace(/d(.*?)d/g, l + '$1' + r)\<close> for a delimiter \<open>d\<close> that is not empty.\<close>

function replace_lazy :: "string \<Rightarrow> string \<Rightarrow> string \<Rightarrow> string \<Rightarrow> string" where
  "replace_lazy d l r s =
     (if s = [] \<or> d = [] then s
      else if take (length d) s = d then
        (case lazy_dot_until d (drop (length d) s) of
           Some (g, rest) \<Rightarrow> l @ g @ r @ replace_lazy d l r rest
         | None \<Rightarrow> hd s # replace_lazy d l r (tl s))
      else hd s # replace_lazy d l r (tl s))"
  by pat_completeness auto
termination
  by (relation "measure (\<lambda>(d, l, r, s). length s)")
    (auto simp: lazy_dot_until_shorter)

text \<open>
  \<^verbatim>\<open>`([^`]+)`\<close> behind the opening backtick: the longest run of characters other than
  a backtick, not empty, with a backtick behind it.
\<close>

definition code_span :: "string \<Rightarrow> (string \<times> string) option" where
  "code_span s =
     (let g = takeWhile (\<lambda>c. c \<noteq> CHR 0x60) s; rest = dropWhile (\<lambda>c. c \<noteq> CHR 0x60) s
      in if g \<noteq> [] \<and> rest \<noteq> [] then Some (g, tl rest) else None)"

lemma code_span_shorter: "code_span s = Some (g, rest) \<Longrightarrow> length rest \<le> length s"
proof -
  assume "code_span s = Some (g, rest)"
  then have "rest = tl (dropWhile (\<lambda>c. c \<noteq> CHR 0x60) s)"
    by (auto simp: code_span_def Let_def split: if_splits)
  then show ?thesis
    using length_dropWhile_le [of "\<lambda>c. c \<noteq> CHR 0x60" s] by simp
qed

definition code_open :: string where
  \<open>code_open = ''<code style="background-color: rgba(156,163,175,0.2); padding: 0.125rem 0.25rem; border-radius: 0.25rem; font-size: 0.875rem;">''\<close>

function replace_code :: "string \<Rightarrow> string" where
  "replace_code [] = []"
| "replace_code (c # cs) =
     (if c = CHR 0x60 then
        (case code_span cs of
           Some (g, rest) \<Rightarrow> code_open @ g @ ''</code>'' @ replace_code rest
         | None \<Rightarrow> c # replace_code cs)
      else c # replace_code cs)"
  by pat_completeness auto
termination
  by (relation "measure length") (auto dest: code_span_shorter)

definition replace_newline :: "string \<Rightarrow> string" where
  "replace_newline s = concat (map (\<lambda>c. if c = CHR 0x0A then ''<br>'' else [c]) s)"

definition replace_bold :: "string \<Rightarrow> string" where
  "replace_bold = replace_lazy ''**'' ''<strong>'' ''</strong>''"

definition replace_italic :: "string \<Rightarrow> string" where
  "replace_italic = replace_lazy ''*'' ''<em>'' ''</em>''"

text \<open>
  The argument is whatever the caller passes: on a value that is not a string,
  \<^verbatim>\<open>text.replace\<close> is not a function (or \<^verbatim>\<open>text\<close> is \<^verbatim>\<open>undefined\<close>), a TypeError.
\<close>

fun renderMarkdown :: "jsval \<Rightarrow> error + string" where
  "renderMarkdown (Some (JStr text)) =
     Inr (replace_newline (replace_code (replace_italic (replace_bold text))))"
| "renderMarkdown v = Inl TypeError"

subsection \<open>The page state\<close>

text \<open>
  \<^verbatim>\<open>customImages\<close>: each avatar is \<^verbatim>\<open>null\<close> (\<open>None\<close>) or the data URL of an image.
\<close>

record images =
  userAvatar :: "string option"
  botAvatar :: "string option"

text \<open>
  The two items of \<^verbatim>\<open>localStorage\<close> the script uses; \<open>None\<close> is an item that is not
  there (\<^verbatim>\<open>getItem\<close> gives \<^verbatim>\<open>null\<close>). The item \<^verbatim>\<open>chatCustomImages\<close> is only ever written
  by \<^verbatim>\<open>saveSettings\<close>, as \<^verbatim>\<open>JSON.stringify(customImages)\<close>, and read back with
  \<^verbatim>\<open>JSON.parse\<close>: it is held as the snapshot it serialises. The theme item is the stored
  string. \<^verbatim>\<open>setItem\<close> always succeeds (no quota).
\<close>

record storage =
  chatCustomImages :: "images option"
  chatTheme :: "string option"

text \<open>The strings \<^verbatim>\<open>'user'\<close> and \<^verbatim>\<open>'bot'\<close> that the script passes as \<^verbatim>\<open>type\<close>.\<close>

datatype who = User | Bot

fun type_name :: "who \<Rightarrow> string" where
  "type_name User = ''user''"
| "type_name Bot = ''bot''"

text \<open>
  What \<^verbatim>\<open>getUserAvatarSVG\<close> and \<^verbatim>\<open>getBotAvatarSVG(anim)\<close> return: an \<^verbatim>\<open>img\<close> element
  with the custom image as source, or the drawn icon (the bot's in its animated
  colours or not).
\<close>

datatype avatar_html = CustomImg string | UserIcon | BotIcon bool

text \<open>
  A child of \<^verbatim>\<open>messagesArea\<close>: a message, whose bubble holds the rendered content, or the
  "Thinking..." placeholder. The time shown in a message is left out.
\<close>

datatype bubble = Content string | LoadingDots

record element =
  className :: string
  elemId :: string
  avatar :: avatar_html
  bubble :: bubble

datatype icon = Sun | Moon

text \<open>
  The script finds the elements it works on by their id. The model takes each lookup to
  find the element that \<^verbatim>\<open>index.html\<close> or the script itself has made under that id: the
  input, the message area and its placeholder, the diagram, the previews. The browser
  returns the first element of the document with the id, and \<^verbatim>\<open>addMessage\<close> puts message
  text into \<^verbatim>\<open>innerHTML\<close> as it is, so this is what happens as long as no message
  carries markup that defines one of these ids. For the send button no such reading is
  needed: the state keeps the values the script has assigned to \<^verbatim>\<open>disabled\<close> of the
  element it found under \<^verbatim>\<open>sendButton\<close>, in order, whichever element that was.
\<close>

text \<open>
  The requests the page has issued, in order, with the value of \<^verbatim>\<open>sessionId\<close> that went
  into the URL, and for a diagram fetch the chain that issued it: \<^verbatim>\<open>initSession\<close> or the
  callback of \<^verbatim>\<open>onSend\<close>.
\<close>

datatype chain = ByInit | BySend

datatype call =
    CreateSession
  | PostMessage jsval string
  | GetVisualization chain jsval

text \<open>
  An asynchronous operation that has been started and has neither resolved nor rejected.
  A request is pending from \<^verbatim>\<open>fetch\<close> until \<^verbatim>\<open>res.json()\<close> has parsed the body (the script
  does nothing between the two); a file read is pending until the reader has loaded, and
  its result is the data URL of the file.
\<close>

datatype pending = PInit | PSend | PViz chain | PRead who string

record state =
  sessionId :: jsval
  isDarkMode :: bool
  isLoading :: bool
  customImages :: images
  localStorage :: storage
  storageWrites :: nat
  inputValue :: string
  messagesArea :: "element list"
  disabledWrites :: "bool list"
  bodyClassName :: string
  themeToggle :: icon
  userAvatarPreview :: "string option"
  userAreaHasImage :: bool
  botAvatarPreview :: "string option"
  botAreaHasImage :: bool
  diagram :: jsval
  mermaidRuns :: nat
  alerts :: "string list"
  calls :: "call list"
  pending :: "pending list"
  uncaught :: "error list"

text \<open>
  The state when the script has been loaded into the document of \<^verbatim>\<open>index.html\<close>:
  lines 1 to 4 of the script and the document as written. \<open>ls\<close> is what an earlier
  page has left in \<^verbatim>\<open>localStorage\<close>.
\<close>

definition initial :: "storage \<Rightarrow> state" where
  "initial ls =
     \<lparr> sessionId = Some JNull, isDarkMode = True, isLoading = False,
       customImages = \<lparr> userAvatar = None, botAvatar = None \<rparr>,
       localStorage = ls, storageWrites = 0,
       inputValue = [], messagesArea = [], disabledWrites = [],
       bodyClassName = ''dark'', themeToggle = Sun,
       userAvatarPreview = None, userAreaHasImage = False,
       botAvatarPreview = None, botAreaHasImage = False,
       diagram = Some (JStr []), mermaidRuns = 0,
       alerts = [], calls = [], pending = [], uncaught = [] \<rparr>"

text \<open>An exception that no handler catches ends the running handler; it is recorded.\<close>

definition throw :: "error \<Rightarrow> state \<Rightarrow> state" where
  "throw e s = s\<lparr>uncaught := uncaught s @ [e]\<rparr>"

subsection \<open>Settings\<close>

text \<open>\<^verbatim>\<open>if (img)\<close> on an avatar: \<^verbatim>\<open>null\<close> and the empty string are false.\<close>

fun present :: "string option \<Rightarrow> bool" where
  "present None = False"
| "present (Some url) = (url \<noteq> [])"

definition theme_name :: "bool \<Rightarrow> string" where
  "theme_name dark = (if dark then ''dark'' else ''light'')"

fun updateAvatarPreview :: "who \<Rightarrow> state \<Rightarrow> state" where
  "updateAvatarPreview User s =
     (let img = userAvatar (customImages s)
      in if present img then s\<lparr>userAvatarPreview := img, userAreaHasImage := True\<rparr>
         else s\<lparr>userAvatarPreview := None, userAreaHasImage := False\<rparr>)"
| "updateAvatarPreview Bot s =
     (let img = botAvatar (customImages s)
      in if present img then s\<lparr>botAvatarPreview := img, botAreaHasImage := True\<rparr>
         else s\<lparr>botAvatarPreview := None, botAreaHasImage := False\<rparr>)"

definition loadSettings :: "state \<Rightarrow> state" where
  "loadSettings s =
     (let imgs = chatCustomImages (localStorage s);
          s1 = (case imgs of Some parsed \<Rightarrow> s\<lparr>customImages := parsed\<rparr> | None \<Rightarrow> s);
          theme = chatTheme (localStorage s1);
          s2 = (if present theme
                then s1\<lparr>isDarkMode := (theme = Some ''dark''),
                        bodyClassName := theme_name (theme = Some ''dark'')\<rparr>
                else s1)
      in updateAvatarPreview Bot (updateAvatarPreview User s2))"

definition saveSettings :: "state \<Rightarrow> state" where
  "saveSettings s =
     s\<lparr>localStorage :=
         \<lparr> chatCustomImages = Some (customImages s),
           chatTheme = Some (theme_name (isDarkMode s)) \<rparr>,
       storageWrites := storageWrites s + 2\<rparr>"

definition toggleTheme :: "state \<Rightarrow> state" where
  "toggleTheme s =
     (let s1 = s\<lparr>isDarkMode := \<not> isDarkMode s\<rparr>;
          s2 = s1\<lparr>bodyClassName := theme_name (isDarkMode s1)\<rparr>;
          s3 = saveSettings s2
      in s3\<lparr>themeToggle := (if isDarkMode s3 then Sun else Moon)\<rparr>)"

subsection \<open>Avatars\<close>

text \<open>A file of the input's list: its size in bytes, and the data URL a reader makes of it.\<close>

record jsfile =
  file_size :: nat
  file_dataURL :: string

text \<open>
  \<open>None\<close> is an empty file list (\<^verbatim>\<open>e.target.files[0]\<close> is \<^verbatim>\<open>undefined\<close>). Each handler
  runs up to its \<^verbatim>\<open>await\<close>; the rest runs when the read has resolved.
\<close>

definition handleUserAvatarUpload :: "jsfile option \<Rightarrow> state \<Rightarrow> state" where
  "handleUserAvatarUpload e s =
     (case e of
        None \<Rightarrow> s
      | Some f \<Rightarrow>
          if file_size f > 2 * 1024 * 1024 then s\<lparr>alerts := alerts s @ [''File too big'']\<rparr>
          else s\<lparr>pending := pending s @ [PRead User (file_dataURL f)]\<rparr>)"

definition handleUserAvatarUpload_resumed :: "string \<Rightarrow> state \<Rightarrow> state" where
  "handleUserAvatarUpload_resumed dataURL s =
     saveSettings (updateAvatarPreview User
       (s\<lparr>customImages := (customImages s)\<lparr>userAvatar := Some dataURL\<rparr>\<rparr>))"

definition handleBotAvatarUpload :: "jsfile option \<Rightarrow> state \<Rightarrow> state" where
  "handleBotAvatarUpload e s =
     (case e of
        None \<Rightarrow> s
      | Some f \<Rightarrow>
          if file_size f > 2 * 1024 * 1024 then s\<lparr>alerts := alerts s @ [''File too big'']\<rparr>
          else s\<lparr>pending := pending s @ [PRead Bot (file_dataURL f)]\<rparr>)"

definition handleBotAvatarUpload_resumed :: "string \<Rightarrow> state \<Rightarrow> state" where
  "handleBotAvatarUpload_resumed dataURL s =
     saveSettings (updateAvatarPreview Bot
       (s\<lparr>customImages := (customImages s)\<lparr>botAvatar := Some dataURL\<rparr>\<rparr>))"

definition resetUserAvatar :: "state \<Rightarrow> state" where
  "resetUserAvatar s =
     saveSettings (updateAvatarPreview User
       (s\<lparr>customImages := (customImages s)\<lparr>userAvatar := None\<rparr>\<rparr>))"

definition resetBotAvatar :: "state \<Rightarrow> state" where
  "resetBotAvatar s =
     saveSettings (updateAvatarPreview Bot
       (s\<lparr>customImages := (customImages s)\<lparr>botAvatar := None\<rparr>\<rparr>))"

definition getUserAvatarSVG :: "state \<Rightarrow> avatar_html" where
  "getUserAvatarSVG s =
     (case userAvatar (customImages s) of
        Some url \<Rightarrow> if url \<noteq> [] then CustomImg url else UserIcon
      | None \<Rightarrow> UserIcon)"

definition getBotAvatarSVG :: "bool \<Rightarrow> state \<Rightarrow> avatar_html" where
  "getBotAvatarSVG anim s =
     (case botAvatar (customImages s) of
        Some url \<Rightarrow> if url \<noteq> [] then CustomImg url else BotIcon anim
      | None \<Rightarrow> BotIcon anim)"

subsection \<open>Messages\<close>

text \<open>
  \<^verbatim>\<open>addMessage(content, type)\<close> builds the element, which renders the content, and appends
  it. When \<^verbatim>\<open>renderMarkdown\<close> throws, nothing has been appended yet.
\<close>

definition addMessage :: "jsval \<Rightarrow> who \<Rightarrow> state \<Rightarrow> error + state" where
  "addMessage content type s =
     (case renderMarkdown content of
        Inl e \<Rightarrow> Inl e
      | Inr html \<Rightarrow>
          Inr (s\<lparr>messagesArea := messagesArea s @
                 [\<lparr> className = ''message '' @ type_name type, elemId = [],
                    avatar = (if type = User then getUserAvatarSVG s
                              else getBotAvatarSVG False s),
                    bubble = Content html \<rparr>]\<rparr>))"

text \<open>The greeting starts with the waving hand, U+1F44B, four bytes in UTF-8.\<close>

definition greeting :: string where
  "greeting = [CHR 0xF0, CHR 0x9F, CHR 0x91, CHR 0x8B] @ '' Hello! Ask me anything.''"

definition addInitialMessage :: "state \<Rightarrow> error + state" where
  "addInitialMessage s = addMessage (Some (JStr greeting)) Bot s"

definition startLoading :: "state \<Rightarrow> state" where
  "startLoading s =
     s\<lparr>isLoading := True,
       messagesArea := messagesArea s @
         [\<lparr> className = ''message bot'', elemId = ''loadingMessage'',
            avatar = getBotAvatarSVG True s, bubble = LoadingDots \<rparr>],
       disabledWrites := disabledWrites s @ [True]\<rparr>"

text \<open>
  \<^verbatim>\<open>getElementById\<close> finds the first element with the id, here among the children of
  the message area (an element that the markup of a message has made is not looked
  at, see above); \<^verbatim>\<open>remove\<close> takes it out.
\<close>

fun remove_by_id :: "string \<Rightarrow> element list \<Rightarrow> element list" where
  "remove_by_id i [] = []"
| "remove_by_id i (e # es) = (if elemId e = i then es else e # remove_by_id i es)"

definition stopLoading :: "state \<Rightarrow> state" where
  "stopLoading s =
     s\<lparr>isLoading := False,
       messagesArea := remove_by_id ''loadingMessage'' (messagesArea s),
       disabledWrites := disabledWrites s @ [False]\<rparr>"

subsection \<open>Requests\<close>

text \<open>
  An \<^verbatim>\<open>async\<close> function runs up to its first \<^verbatim>\<open>await\<close> in the caller's turn: the request
  is issued there, with the \<^verbatim>\<open>sessionId\<close> of that moment. The part behind the awaits is
  the function of the same name with the suffix \<open>_resumed\<close>, applied to the parsed body.
\<close>

definition loadVisualization :: "chain \<Rightarrow> state \<Rightarrow> state" where
  "loadVisualization c s =
     s\<lparr>calls := calls s @ [GetVisualization c (sessionId s)],
       pending := pending s @ [PViz c]\<rparr>"

definition loadVisualization_resumed :: "json \<Rightarrow> state \<Rightarrow> error + state" where
  "loadVisualization_resumed data s =
     (case get_prop (Some data) ''diagram'' of
        Inl e \<Rightarrow> Inl e
      | Inr d \<Rightarrow> Inr (s\<lparr>diagram := d, mermaidRuns := mermaidRuns s + 1\<rparr>))"

definition initSession :: "state \<Rightarrow> state" where
  "initSession s = s\<lparr>calls := calls s @ [CreateSession], pending := pending s @ [PInit]\<rparr>"

definition initSession_resumed :: "json \<Rightarrow> state \<Rightarrow> state" where
  "initSession_resumed data s =
     (case get_prop (Some data) ''session_id'' of
        Inl e \<Rightarrow> throw e s
      | Inr sid \<Rightarrow> loadVisualization ByInit (s\<lparr>sessionId := sid\<rparr>))"

text \<open>\<^verbatim>\<open>initSession\<close> behind \<^verbatim>\<open>await loadVisualization()\<close>.\<close>

definition initSession_finish :: "state \<Rightarrow> state" where
  "initSession_finish s =
     (case addInitialMessage s of Inl e \<Rightarrow> throw e s | Inr s' \<Rightarrow> s')"

definition sendMessageToServer :: "string \<Rightarrow> state \<Rightarrow> state" where
  "sendMessageToServer text s =
     s\<lparr>calls := calls s @ [PostMessage (sessionId s) text],
       pending := pending s @ [PSend]\<rparr>"

subsection \<open>onSend\<close>

text \<open>
  \<^verbatim>\<open>trim\<close> strips white space and line terminators from both ends. These are, with
  their bytes: tab, line feed, vertical tab, form feed, carriage return, space; U+00A0;
  U+1680; U+2000 to U+200A; U+2028; U+2029; U+202F; U+205F; U+3000; U+FEFF.
\<close>

definition white_space :: "string list" where
  "white_space =
     [[CHR 0x09], [CHR 0x0A], [CHR 0x0B], [CHR 0x0C], [CHR 0x0D], [CHR 0x20],
      [CHR 0xC2, CHR 0xA0], [CHR 0xE1, CHR 0x9A, CHR 0x80],
      [CHR 0xE2, CHR 0x80, CHR 0x80], [CHR 0xE2, CHR 0x80, CHR 0x81],
      [CHR 0xE2, CHR 0x80, CHR 0x82], [CHR 0xE2, CHR 0x80, CHR 0x83],
      [CHR 0xE2, CHR 0x80, CHR 0x84], [CHR 0xE2, CHR 0x80, CHR 0x85],
      [CHR 0xE2, CHR 0x80, CHR 0x86], [CHR 0xE2, CHR 0x80, CHR 0x87],
      [CHR 0xE2, CHR 0x80, CHR 0x88], [CHR 0xE2, CHR 0x80, CHR 0x89],
      [CHR 0xE2, CHR 0x80, CHR 0x8A], [CHR 0xE2, CHR 0x80, CHR 0xA8],
      [CHR 0xE2, CHR 0x80, CHR 0xA9], [CHR 0xE2, CHR 0x80, CHR 0xAF],
      [CHR 0xE2, CHR 0x81, CHR 0x9F], [CHR 0xE3, CHR 0x80, CHR 0x80],
      [CHR 0xEF, CHR 0xBB, CHR 0xBF]]"

lemma starts_with_shorter: "starts_with w s \<Longrightarrow> length (drop (length w) s) < length s"
proof -
  assume a: "starts_with w s"
  then have "take (length w) s = w" by (simp add: starts_with_def)
  from arg_cong [OF this, of length] have "length w \<le> length s" by simp
  moreover from a have "0 < length w" by (simp add: starts_with_def)
  moreover have "length (drop (length w) s) = length s - length w" by simp
  ultimately show ?thesis by linarith
qed

text \<open>Taking characters of the list \<open>ws\<close> off the front of \<open>s\<close> as long as there is one.\<close>

function strip :: "string list \<Rightarrow> string \<Rightarrow> string" where
  "strip ws s =
     (case find (\<lambda>w. starts_with w s) ws of
        Some w \<Rightarrow> strip ws (drop (length w) s)
      | None \<Rightarrow> s)"
  by pat_completeness auto
termination
proof (relation "measure (\<lambda>(ws, s). length s)", goal_cases)
  case 1
  show ?case by simp
next
  case (2 ws s w)
  then have "starts_with w s" by (auto simp: find_Some_iff)
  then show ?case using starts_with_shorter by simp
qed

declare strip.simps [simp del]

text \<open>At the end of the string the bytes of a character come in reverse.\<close>

definition trim :: "string \<Rightarrow> string" where
  "trim s = rev (strip (map rev white_space) (rev (strip white_space s)))"

definition onSend :: "state \<Rightarrow> state" where
  "onSend s =
     (let text = trim (inputValue s)
      in if text = [] \<or> isLoading s then s
         else (case addMessage (Some (JStr text)) User s of
                 Inl e \<Rightarrow> throw e s
               | Inr s1 \<Rightarrow> sendMessageToServer text (startLoading (s1\<lparr>inputValue := []\<rparr>))))"

text \<open>
  The callback that \<^verbatim>\<open>onSend\<close> gives to \<^verbatim>\<open>then\<close>, applied to the parsed reply. There is
  no rejection handler.
\<close>

definition show_reply :: "jsval \<Rightarrow> state \<Rightarrow> state" where
  "show_reply content s =
     (case addMessage content Bot s of
        Inl e \<Rightarrow> throw e s
      | Inr s' \<Rightarrow> loadVisualization BySend s')"

definition onSend_then :: "json \<Rightarrow> state \<Rightarrow> state" where
  "onSend_then resp s =
     (let s1 = stopLoading s
      in case get_prop (Some resp) ''result'' of
           Inl e \<Rightarrow> throw e s1
         | Inr result \<Rightarrow>
             if \<not> truthy result then show_reply (Some (JStr (JSON_stringify resp))) s1
             else (case get_prop result ''response'' of
                     Inl e \<Rightarrow> throw e s1
                   | Inr response \<Rightarrow>
                       if \<not> truthy response
                       then show_reply (Some (JStr (JSON_stringify resp))) s1
                       else (case get_prop response ''message'' of
                               Inl e \<Rightarrow> throw e s1
                             | Inr message \<Rightarrow> show_reply message s1)))"

subsection \<open>Events\<close>

text \<open>
  What can happen to the page once it is loaded: the user edits the input, submits
  (the send button or Enter, both call \<^verbatim>\<open>onSend\<close>), toggles the theme, picks a file or
  closes the picker with none, resets an avatar; a pending operation resolves with a
  value or rejects with a reason. \<open>Resolve i v\<close> and \<open>Reject i r\<close> are about the
  operation at position \<open>i\<close> of the pending list and do nothing when there is none;
  a request resolves with the parsed body \<open>v\<close>, a file read with the data URL of its
  file (\<open>v\<close> is not looked at).
  A handler and the continuations it wakes run to their end before the next event.
\<close>

datatype event =
    UserTypes string
  | Submit
  | ToggleTheme
  | AvatarChange who "jsfile option"
  | ResetAvatar who
  | Resolve nat json
  | Reject nat string

definition remove_nth :: "nat \<Rightarrow> 'a list \<Rightarrow> 'a list" where
  "remove_nth i xs = take i xs @ drop (Suc i) xs"

fun resume :: "pending \<Rightarrow> json \<Rightarrow> state \<Rightarrow> state" where
  "resume PInit data s = initSession_resumed data s"
| "resume PSend data s = onSend_then data s"
| "resume (PViz c) data s =
     (case loadVisualization_resumed data s of
        Inl e \<Rightarrow> throw e s
      | Inr s' \<Rightarrow> (case c of ByInit \<Rightarrow> initSession_finish s' | BySend \<Rightarrow> s'))"
| "resume (PRead User dataURL) data s = handleUserAvatarUpload_resumed dataURL s"
| "resume (PRead Bot dataURL) data s = handleBotAvatarUpload_resumed dataURL s"

fun step :: "state \<Rightarrow> event \<Rightarrow> state" where
  "step s (UserTypes v) = s\<lparr>inputValue := v\<rparr>"
| "step s Submit = onSend s"
| "step s ToggleTheme = toggleTheme s"
| "step s (AvatarChange User e) = handleUserAvatarUpload e s"
| "step s (AvatarChange Bot e) = handleBotAvatarUpload e s"
| "step s (ResetAvatar User) = resetUserAvatar s"
| "step s (ResetAvatar Bot) = resetBotAvatar s"
| "step s (Resolve i v) =
     (if i < length (pending s)
      then resume (pending s ! i) v (s\<lparr>pending := remove_nth i (pending s)\<rparr>)
      else s)"
| "step s (Reject i r) =
     (if i < length (pending s)
      then throw (Rejected r) (s\<lparr>pending := remove_nth i (pending s)\<rparr>)
      else s)"

text \<open>The handler of \<^verbatim>\<open>DOMContentLoaded\<close>, which fires once, when the page has loaded.\<close>

definition domContentLoaded :: "state \<Rightarrow> state" where
  "domContentLoaded s = initSession (loadSettings s)"

text \<open>A page lifetime: the page loads, then events happen.\<close>

definition page :: "storage \<Rightarrow> event list \<Rightarrow> state" where
  "page ls evs = foldl step (domContentLoaded (initial ls)) evs"

definition no_storage :: storage where
  "no_storage = \<lparr> chatCustomImages = None, chatTheme = None \<rparr>"


section \<open>Steps and page lifetimes\<close>

lemmas handler_defs =
  onSend_def onSend_then_def show_reply_def addMessage_def addInitialMessage_def
  startLoading_def stopLoading_def loadVisualization_def loadVisualization_resumed_def
  initSession_def initSession_resumed_def initSession_finish_def sendMessageToServer_def
  toggleTheme_def saveSettings_def handleUserAvatarUpload_def handleBotAvatarUpload_def
  handleUserAvatarUpload_resumed_def handleBotAvatarUpload_resumed_def
  resetUserAvatar_def resetBotAvatar_def throw_def





section \<open>Text rendering\<close>


text \<open>
  The dot stops at a line terminator, so a span does not reach over one: with U+2028
  between two single markers both stay; with a line feed between two double markers
  no bold span is found, and the italic pattern takes each pair as an empty span.
\<close>

lemma renderMarkdown_lines:
  "renderMarkdown (Some (JStr (''*a'' @ [CHR 0xE2, CHR 0x80, CHR 0xA8] @ ''b*'')))
     = Inr (''*a'' @ [CHR 0xE2, CHR 0x80, CHR 0xA8] @ ''b*'')"
  "renderMarkdown (Some (JStr (''**a'' @ [CHR 0x0A] @ ''b** *c*''))) = Inr ''<em></em>a<br>b<em></em> <em>c</em>''"
  by code_simp+

section \<open>Avatar uploads\<close>

text \<open>
  Claim C10. When the change event of an avatar input fires with an empty file list,
  the handler returns at once: the whole page state is as it was, so the avatars, the
  previews and the stored settings are unchanged and no warning is shown.
\<close>

theorem avatar_upload_no_file:
  "handleUserAvatarUpload None s = s \<and> handleBotAvatarUpload None s = s
   \<and> step s (AvatarChange k None) = s"
  by (cases k) (simp_all add: handleUserAvatarUpload_def handleBotAvatarUpload_def)


text \<open>
  Claim C7. For a file of more than 2 MiB (\<open>2 * 1024 * 1024\<close> bytes), either upload
  handler shows the warning and returns: nothing but the list of warnings changes, so
  the avatars and previews are as before, no read is started and \<^verbatim>\<open>localStorage\<close> is
  not written.
\<close>

theorem avatar_upload_oversize:
  assumes "file_size f > 2 * 1024 * 1024"
  shows "handleUserAvatarUpload (Some f) s = s\<lparr>alerts := alerts s @ [''File too big'']\<rparr>
    \<and> handleBotAvatarUpload (Some f) s = s\<lparr>alerts := alerts s @ [''File too big'']\<rparr>
    \<and> (\<forall>k. customImages (step s (AvatarChange k (Some f))) = customImages s
           \<and> userAvatarPreview (step s (AvatarChange k (Some f))) = userAvatarPreview s
           \<and> botAvatarPreview (step s (AvatarChange k (Some f))) = botAvatarPreview s
           \<and> localStorage (step s (AvatarChange k (Some f))) = localStorage s
           \<and> storageWrites (step s (AvatarChange k (Some f))) = storageWrites s
           \<and> pending (step s (AvatarChange k (Some f))) = pending s)"
proof -
  have u: "handleUserAvatarUpload (Some f) s = s\<lparr>alerts := alerts s @ [''File too big'']\<rparr>"
    using assms by (simp add: handleUserAvatarUpload_def)
  have b: "handleBotAvatarUpload (Some f) s = s\<lparr>alerts := alerts s @ [''File too big'']\<rparr>"
    using assms by (simp add: handleBotAvatarUpload_def)
  have "step s (AvatarChange k (Some f)) = s\<lparr>alerts := alerts s @ [''File too big'']\<rparr>" for k
    by (cases k) (simp_all add: u b)
  with u b show ?thesis by simp
qed

text \<open>A file of 2 MiB and one byte, on a page that has just loaded.\<close>

theorem avatar_upload_oversize_witness:
  "file_size \<lparr> file_size = 2 * 1024 * 1024 + 1, file_dataURL = ''data:image/png;base64,AA=='' \<rparr>
     > 2 * 1024 * 1024
   \<and> handleUserAvatarUpload
       (Some \<lparr> file_size = 2 * 1024 * 1024 + 1, file_dataURL = ''data:image/png;base64,AA=='' \<rparr>)
       (page no_storage [])
     = (page no_storage [])\<lparr>alerts := [''File too big'']\<rparr>"
  using avatar_upload_oversize
    [of "\<lparr> file_size = 2 * 1024 * 1024 + 1, file_dataURL = ''data:image/png;base64,AA=='' \<rparr>"
        "page no_storage []"]
  by (simp add: page_def domContentLoaded_def initSession_def loadSettings_def initial_def
      no_storage_def)

text \<open>A file of exactly 2 MiB is read.\<close>

lemma avatar_upload_at_limit:
  "file_size f = 2 * 1024 * 1024 \<Longrightarrow>
   handleUserAvatarUpload (Some f) s = s\<lparr>pending := pending s @ [PRead User (file_dataURL f)]\<rparr>"
  by (simp add: handleUserAvatarUpload_def)

section \<open>Blank input\<close>

text \<open>A string made of white space only is empty after trimming.\<close>

lemma find_white_space:
  "w \<in> set white_space \<Longrightarrow> find (\<lambda>v. starts_with v (w @ s)) white_space = Some w"
  unfolding white_space_def starts_with_def by (elim disjE | simp)+

lemma strip_white_space:
  "set ws \<subseteq> set white_space \<Longrightarrow> strip white_space (concat ws @ s) = strip white_space s"
proof (induction ws)
  case Nil
  then show ?case by simp
next
  case (Cons w ws)
  then have "find (\<lambda>v. starts_with v (w @ concat ws @ s)) white_space = Some w"
    by (simp add: find_white_space)
  then have "strip white_space (concat (w # ws) @ s) = strip white_space (concat ws @ s)"
    by (subst strip.simps) simp
  with Cons show ?case by simp
qed

lemma strip_Nil: "strip ws [] = []"
proof -
  have "find (\<lambda>w. starts_with w []) ws = None"
    by (auto simp: find_None_iff starts_with_def)
  then show ?thesis by (subst strip.simps) simp
qed

lemma trim_white_space: "set ws \<subseteq> set white_space \<Longrightarrow> trim (concat ws) = []"
  using strip_white_space [of ws "[]"] by (simp add: trim_def strip_Nil)

lemma trim_examples:
  "trim ''hi'' = ''hi''" "trim ''again'' = ''again''" "trim ''  hi there '' = ''hi there''"
  "trim ([CHR 0xE3, CHR 0x80, CHR 0x80] @ ''hi'' @ [CHR 0xC2, CHR 0xA0, CHR 0x0A]) = ''hi''"
  "trim [CHR 0xE3, CHR 0x80, CHR 0x80, CHR 0x20, CHR 0xC2, CHR 0xA0, CHR 0x09,
         CHR 0xE2, CHR 0x80, CHR 0xA8, CHR 0xEF, CHR 0xBB, CHR 0xBF] = []"
  by code_simp+

text \<open>
  Claim C6. When the input is empty after trimming (it is empty or holds white space
  only), a submission leaves the whole page state as it was: no request is issued, no
  message and no placeholder is appended, \<^verbatim>\<open>isLoading\<close> is unchanged.
\<close>

theorem onSend_blank:
  assumes "trim (inputValue s) = []
    \<or> (\<exists>ws. set ws \<subseteq> set white_space \<and> inputValue s = concat ws)"
  shows "onSend s = s \<and> step s Submit = s"
proof -
  from assms have "trim (inputValue s) = []"
    by (auto simp: trim_white_space)
  then show ?thesis by (simp add: onSend_def)
qed

text \<open>
  The input holds U+3000, a space, U+00A0, a tab, U+2028 and U+FEFF.
\<close>

theorem onSend_blank_witness:
  "trim (inputValue (page no_storage
      [UserTypes [CHR 0xE3, CHR 0x80, CHR 0x80, CHR 0x20, CHR 0xC2, CHR 0xA0, CHR 0x09,
                  CHR 0xE2, CHR 0x80, CHR 0xA8, CHR 0xEF, CHR 0xBB, CHR 0xBF]])) = []
   \<and> step (page no_storage
      [UserTypes [CHR 0xE3, CHR 0x80, CHR 0x80, CHR 0x20, CHR 0xC2, CHR 0xA0, CHR 0x09,
                  CHR 0xE2, CHR 0x80, CHR 0xA8, CHR 0xEF, CHR 0xBB, CHR 0xBF]]) Submit
     = page no_storage
      [UserTypes [CHR 0xE3, CHR 0x80, CHR 0x80, CHR 0x20, CHR 0xC2, CHR 0xA0, CHR 0x09,
                  CHR 0xE2, CHR 0x80, CHR 0xA8, CHR 0xEF, CHR 0xBB, CHR 0xBF]]"
proof -
  have h: "trim (inputValue (page no_storage
      [UserTypes [CHR 0xE3, CHR 0x80, CHR 0x80, CHR 0x20, CHR 0xC2, CHR 0xA0, CHR 0x09,
                  CHR 0xE2, CHR 0x80, CHR 0xA8, CHR 0xEF, CHR 0xBB, CHR 0xBF]])) = []"
    by (simp add: page_def trim_examples)
  from onSend_blank [OF disjI1, OF h] h show ?thesis by simp
qed


section \<open>Theme\<close>









section \<open>One send at a time\<close>














section \<open>A send that rejects\<close>









section \<open>Session creation\<close>













section \<open>Order of initialisation\<close>



definition init_pending :: "state \<Rightarrow> bool" where
  "init_pending s \<longleftrightarrow> PInit \<in> set (pending s) \<or> PViz ByInit \<in> set (pending s)"




text \<open>
  With nothing of the initialisation pending, a step appends to the messages only when
  it is a submission or the reply to a send.
\<close>

lemma no_greeting_step:
  assumes "\<not> init_pending s" and "e \<noteq> Submit"
    and "\<And>i v. e = Resolve i v \<Longrightarrow> i < length (pending s) \<Longrightarrow> pending s ! i \<noteq> PSend"
  shows "messagesArea (step s e) = messagesArea s"
proof (cases "(s, e)" rule: step.cases)
  case (8 s' i v)
  show ?thesis
  proof (cases "i < length (pending s)")
    case True
    with assms 8 have "pending s ! i \<noteq> PInit" "pending s ! i \<noteq> PViz ByInit" "pending s ! i \<noteq> PSend"
      by (auto simp: init_pending_def dest: nth_mem)
    then have "messagesArea (resume (pending s ! i) v (s\<lparr>pending := remove_nth i (pending s)\<rparr>))
        = messagesArea s"
      by (cases "(pending s ! i, v, s\<lparr>pending := remove_nth i (pending s)\<rparr>)" rule: resume.cases)
        (auto simp: handler_defs Let_def split: sum.splits chain.splits)
    with 8 True show ?thesis by simp
  next
    case False
    with 8 show ?thesis by simp
  qed
qed (use assms in \<open>auto simp: handler_defs Let_def split: option.splits\<close>)












section \<open>Replies\<close>

text \<open>
  What the callback of \<^verbatim>\<open>onSend\<close> appends: when \<^verbatim>\<open>resp.result\<close> and
  \<^verbatim>\<open>resp.result.response\<close> are both true, the value of \<^verbatim>\<open>resp.result.response.message\<close>;
  when one of them is false, the serialised reply.
\<close>

lemma onSend_then_message:
  assumes "get_prop (Some resp) ''result'' = Inr result" and "truthy result"
    and "get_prop result ''response'' = Inr response" and "truthy response"
    and "get_prop response ''message'' = Inr message"
  shows "onSend_then resp s = show_reply message (stopLoading s)"
  using assms by (simp add: onSend_then_def)

lemma onSend_then_fallback:
  assumes "get_prop (Some resp) ''result'' = Inr result"
    and "\<not> truthy result \<or> (\<exists>response. get_prop result ''response'' = Inr response \<and> \<not> truthy response)"
  shows "onSend_then resp s = show_reply (Some (JStr (JSON_stringify resp))) (stopLoading s)"
  using assms by (auto simp: onSend_then_def Let_def)

lemma show_reply_string:
  "show_reply (Some (JStr m)) s =
     loadVisualization BySend
       (s\<lparr>messagesArea := messagesArea s @
           [\<lparr> className = ''message bot'', elemId = [], avatar = getBotAvatarSVG False s,
              bubble = Content (replace_newline (replace_code (replace_italic (replace_bold m)))) \<rparr>]\<rparr>)"
  by (simp add: show_reply_def addMessage_def)

lemma show_reply_undefined: "show_reply None s = throw TypeError s"
  by (simp add: show_reply_def addMessage_def)

lemma reply_examples:
  "onSend_then (JObj [(''result'', JObj [(''response'', JObj [(''message'', JStr ''Hi'')])])]) s
     = show_reply (Some (JStr ''Hi'')) (stopLoading s)"
  \<open>onSend_then (JObj [(''foo'', JNum 1)]) s
     = show_reply (Some (JStr ''{"foo":1}'')) (stopLoading s)\<close>
  by (simp_all add: onSend_then_def quote_def quote_char_def show_int_def)

text \<open>
  Claim C3 at the reply \<^verbatim>\<open>{"result":{"response":{}}}\<close>, which has no
  \<^verbatim>\<open>result.response.message\<close>. The claim has the serialised reply appended. The script
  tests \<^verbatim>\<open>resp.result && resp.result.response\<close> only: both are objects, so it passes
  \<^verbatim>\<open>undefined\<close> to \<^verbatim>\<open>addMessage\<close>, and \<^verbatim>\<open>renderMarkdown\<close> throws. The placeholder is
  gone by then; no assistant message is appended and the diagram is not fetched.
  The reply \<^verbatim>\<open>null\<close> ends the same way, at \<^verbatim>\<open>resp.result\<close>.
\<close>

theorem reply_without_message:
  \<open>onSend_then (JObj [(''result'', JObj [(''response'', JObj [])])]) s
     = throw TypeError (stopLoading s)
   \<and> messagesArea (onSend_then (JObj [(''result'', JObj [(''response'', JObj [])])]) s)
     = remove_by_id ''loadingMessage'' (messagesArea s)
   \<and> calls (onSend_then (JObj [(''result'', JObj [(''response'', JObj [])])]) s) = calls s
   \<and> JSON_stringify (JObj [(''result'', JObj [(''response'', JObj [])])])
     = ''{"result":{"response":{}}}''
   \<and> onSend_then JNull s = throw TypeError (stopLoading s)\<close>
  by (simp add: onSend_then_def show_reply_undefined throw_def stopLoading_def quote_def
      quote_char_def)

end
